theory Spec2Isabelle
  imports Main "HOL-Library.Word" "HOL-Library.Sublist"
begin

section \<open>Data model\<close>

text \<open>
  Machine integers of the Go sources: \<open>uint64\<close> (stakes, gas power, timestamps, block
  numbers) and \<open>uint32\<close> (\<open>idx.Frame\<close>, \<open>idx.Epoch\<close>, \<open>idx.Event\<close>). Event hashes and
  validator addresses are fixed-width byte strings; only their identity matters here, so
  they are natural numbers, the zero hash being \<open>0\<close>.
\<close>

type_synonym u64 = "64 word"
type_synonym u32 = "32 word"
type_synonym Address = nat
type_synonym EventHash = nat
type_synonym StateHash = nat

text \<open>
  Everything that stops a Go call without a normal return is a value of \<open>error\<close>:
  \<open>Log.Crit\<close> (go-ethereum's logger writes the record and exits the process), a nil
  pointer dereference, \<open>big.Int.Div\<close> by zero, and the error values handed back to the
  caller.
\<close>

datatype error =
    Crit string
  | NilDereference
  | DivisionByZero
  | ErrAlreadyConnectedEvent
  | EngineError nat
  | CommitError nat

record EventHeaderData =
  Epoch :: u32
  Seq :: u32
  Creator :: Address
  Parents :: "EventHash list"
  GasPowerUsed :: u64
  GasPowerLeft :: u64
  ClaimedTime :: u64
  MedianTime :: u64
  Hash :: EventHash

text \<open>
  Modelled from the spec: \<open>EventHeaderData.SelfParent()\<close> (package \<open>inter\<close> of this
  revision is not among the sources). The spec's data model: the parents are an ordered
  list whose first element is the self-parent, the zero hash standing for none.
\<close>

definition SelfParent :: "EventHeaderData \<Rightarrow> EventHash option" where
  "SelfParent e = (case Parents e of [] \<Rightarrow> None | h # _ \<Rightarrow> if h = 0 then None else Some h)"

text \<open>
  Modelled from the spec: \<open>pos.Validators\<close> (package \<open>inter/pos\<close> is not among the
  sources): an ordered mapping from address to stake. \<open>Get\<close> yields the stake of a
  validator, zero for an address that is not in the table; \<open>TotalStake\<close> is the sum of
  the stakes, a 64-bit value; \<open>Copy\<close> yields an equal table.
\<close>

type_synonym Validators = "(Address \<times> u64) list"

definition Get :: "Validators \<Rightarrow> Address \<Rightarrow> u64" where
  "Get vs a = (case map_of vs a of None \<Rightarrow> 0 | Some s \<Rightarrow> s)"

definition TotalStake :: "Validators \<Rightarrow> u64" where
  "TotalStake vs = sum_list (map snd vs)"

definition Copy :: "Validators \<Rightarrow> Validators" where
  "Copy vs = vs"

record GasPowerConfig =
  TotalPerH :: u64
  MaxGasPowerPeriod :: u64
  StartupPeriod :: u64
  MinStartupGasPower :: u64

record DagConfig =
  EpochLen :: u32
  MaxValidatorEventsInBlock :: u32
  GasPower :: GasPowerConfig

type_synonym headersByCreator = "Address \<rightharpoonup> EventHeaderData"

record GenesisState =
  Time :: u64
  Epoch_g :: u32
  LastAtropos_g :: EventHash
  StateHash_g :: StateHash
  LastHeaders :: headersByCreator

text \<open>\<open>epochState\<close> of poset/epoch.go: the values that change only with the epoch.\<close>

record epochState =
  EpochN :: u32
  PrevEpoch :: GenesisState
  Validators :: Validators

text \<open>
  The checkpoint, as the code reads and writes it (\<open>p.checkpoint.LastBlockN\<close>,
  \<open>p.checkpoint.LastAtropos\<close>, \<open>p.checkpoint.StateHash\<close>, \<open>p.NextValidators\<close>).
\<close>

record checkpoint =
  LastBlockN :: u64
  LastAtropos :: EventHash
  StateHash :: StateHash
  NextValidators :: Validators

record Block =
  Index :: u64
  BlockTime :: u64
  Events :: "EventHash list"
  PrevHash :: EventHash

text \<open>
  Modelled from the spec: \<open>inter.NewBlock\<close> (not among the sources): the block of
  the given index, consensus time, ordered events and previous atropos.
\<close>

definition NewBlock :: "u64 \<Rightarrow> u64 \<Rightarrow> EventHash list \<Rightarrow> EventHash \<Rightarrow> Block" where
  "NewBlock index time events prevHash =
     \<lparr>Index = index, BlockTime = time, Events = events, PrevHash = prevHash\<rparr>"

subsection \<open>The consensus store\<close>

text \<open>
  Modelled from the spec: the store of the consensus engine (\<open>poset/store*.go\<close> is not
  among the sources). The epoch-scoped tables (confirmed-on, roots, vector index, tips)
  are dropped and recreated on epoch seal; the epoch state and the checkpoint are
  persistent. A read of an absent key is not an error: \<open>GetEventConfirmedOn\<close> yields
  frame zero for an event that has no record.
\<close>

record EpochTable =
  ConfirmedOn :: "EventHash \<rightharpoonup> u32"
  Roots :: "(u32 \<times> Address \<times> EventHash) list"
  VectorIndex :: "EventHash \<rightharpoonup> u32 list"
  Tips :: "Address \<rightharpoonup> EventHash"

text \<open>Modelled from the spec: the epoch-scoped tables right after their creation.\<close>

definition emptyEpochTable :: EpochTable where
  "emptyEpochTable =
     \<lparr>ConfirmedOn = Map.empty, Roots = [], VectorIndex = Map.empty, Tips = Map.empty\<rparr>"

record Store =
  epochTable :: EpochTable
  epochDbOf :: u32
  tableEpoch :: "epochState option"
  tableCheckpoint :: "(checkpoint \<times> u32) option"

text \<open>
  Modelled from the spec: the accessors of the consensus store. \<open>GetEventConfirmedOn\<close>
  reads the frame an event was confirmed on, zero for an event without a record;
  \<open>SetEventConfirmedOn\<close> writes it; \<open>SetEpoch\<close> persists the epoch state;
  \<open>RecreateEpochDb\<close> drops the epoch-scoped tables and creates empty ones for the
  given epoch.
\<close>

definition GetEventConfirmedOn :: "Store \<Rightarrow> EventHash \<Rightarrow> u32" where
  "GetEventConfirmedOn s h = (case ConfirmedOn (epochTable s) h of None \<Rightarrow> 0 | Some f \<Rightarrow> f)"

definition SetEventConfirmedOn :: "Store \<Rightarrow> EventHash \<Rightarrow> u32 \<Rightarrow> Store" where
  "SetEventConfirmedOn s h f =
     s\<lparr>epochTable := (epochTable s)\<lparr>ConfirmedOn := (ConfirmedOn (epochTable s))(h \<mapsto> f)\<rparr>\<rparr>"

definition SetEpoch :: "Store \<Rightarrow> epochState \<Rightarrow> Store" where
  "SetEpoch s es = s\<lparr>tableEpoch := Some es\<rparr>"

definition RecreateEpochDb :: "Store \<Rightarrow> u32 \<Rightarrow> Store" where
  "RecreateEpochDb s n = s\<lparr>epochTable := emptyEpochTable, epochDbOf := n\<rparr>"

subsection \<open>Election and vector clock state\<close>

text \<open>
  The election's cached data and its \<open>Reset\<close>, from election/election.go: the members
  and the frame to decide are replaced, the votes and the decided roots are erased.
\<close>

record voteValue =
  decided :: bool
  yes :: bool
  seenRoot :: EventHash

record Election =
  frameToDecide :: u32
  members :: Validators
  decidedRoots :: "Address \<rightharpoonup> voteValue"
  votes :: "(EventHash \<times> Address) \<rightharpoonup> voteValue"

definition Reset :: "Election \<Rightarrow> Validators \<Rightarrow> u32 \<Rightarrow> Election" where
  "Reset el ms f =
     el\<lparr>members := ms, frameToDecide := f, votes := Map.empty, decidedRoots := Map.empty\<rparr>"

text \<open>
  Modelled from the spec: the vector clock (package \<open>vector\<close> is not among the
  sources). Its \<open>Reset\<close> takes the validators and the vector-index table of the epoch
  database and starts from them.
\<close>

record VecClock =
  vcValidators :: Validators
  vcIndex :: "EventHash \<rightharpoonup> u32 list"

text \<open>Modelled from the spec: \<open>vecClock.Reset\<close>, as described above.\<close>

definition VecClock_Reset :: "Validators \<Rightarrow> (EventHash \<rightharpoonup> u32 list) \<Rightarrow> VecClock" where
  "VecClock_Reset vs tbl = \<lparr>vcValidators = vs, vcIndex = tbl\<rparr>"

subsection \<open>The engine\<close>

text \<open>
  The fields of \<open>Poset\<close> that the functions below touch. \<open>epochState\<close> is embedded, so
  \<open>p.EpochN\<close>, \<open>p.PrevEpoch\<close> and \<open>p.Validators\<close> are its fields. \<open>GetEventHeader\<close>
  is the event source callback, which yields nil for an unknown event; \<open>applyBlock\<close>
  is the state-machine callback, which may be nil.
\<close>

record Poset =
  dag :: DagConfig
  epochState :: epochState
  checkpoint :: checkpoint
  LastDecidedFrame :: u32
  store :: Store
  vecClock :: VecClock
  election :: Election
  GetEventHeader :: "u32 \<Rightarrow> EventHash \<Rightarrow> EventHeaderData option"
  applyBlock :: "(Block \<Rightarrow> StateHash \<Rightarrow> Validators \<Rightarrow> StateHash \<times> Validators) option"

text \<open>
  Functions of the engine that are not among the sources, taken as parameters:
  \<open>Validators.Top()\<close>, \<open>frameConsensusTime\<close> and \<open>fareOrdering\<close> (which yields the
  ordered events and the last consensus time of the frame).
\<close>

record PosetDeps =
  Top :: "Validators \<Rightarrow> Validators"
  frameConsensusTime :: "Poset \<Rightarrow> u32 \<Rightarrow> u64"
  fareOrdering :: "Poset \<Rightarrow> u32 \<Rightarrow> EventHash \<Rightarrow> EventHeaderData list \<Rightarrow> EventHash list \<times> u64"

definition firstFrame :: u32 where
  "firstFrame = 1"

definition setEpochValidators :: "Poset \<Rightarrow> Validators \<Rightarrow> u32 \<Rightarrow> Poset" where
  "setEpochValidators p validators epoch =
     p\<lparr>epochState := (epochState p)\<lparr>Validators := validators, EpochN := epoch\<rparr>\<rparr>"

text \<open>
  Modelled from the spec: \<open>saveCheckpoint\<close> (not among the sources) persists the
  checkpoint together with the last decided frame.
\<close>

definition saveCheckpoint :: "Poset \<Rightarrow> Poset" where
  "saveCheckpoint p =
     p\<lparr>store := (store p)\<lparr>tableCheckpoint := Some (checkpoint p, LastDecidedFrame p)\<rparr>\<rparr>"

section \<open>Gas-power regulator (poset/gas\_power.go)\<close>

text \<open>\<open>time.Hour\<close>, in nanoseconds.\<close>

definition Hour :: nat where
  "Hour = 3600000000000"

text \<open>
  \<open>big.Int.Uint64()\<close> keeps the low 64 bits of the (non-negative) big integer; the big
  integers themselves are natural numbers.
\<close>

definition Uint64 :: "nat \<Rightarrow> u64" where
  "Uint64 n = word_of_nat n"

definition calcValidatorGasPowerPerH :: "Poset \<Rightarrow> Address \<Rightarrow> error + (u64 \<times> u64 \<times> u64)" where
  "calcValidatorGasPowerPerH p validator =
     (let stake = Get (Validators (epochState p)) validator in
      if stake = 0 then Inr (0, 0, 0)
      else
        let gas = GasPower (dag p);
            total = unat (TotalStake (Validators (epochState p)))
        in if total = 0 then Inl DivisionByZero
           else
             let validatorGasPowerPerH_bn = unat (TotalPerH gas) * unat stake div total;
                 perHour = Uint64 validatorGasPowerPerH_bn;
                 validatorMaxGasPower_bn =
                   validatorGasPowerPerH_bn * unat (MaxGasPowerPeriod gas) div Hour;
                 maxGasPower = Uint64 validatorMaxGasPower_bn;
                 validatorStartup_bn =
                   validatorGasPowerPerH_bn * unat (StartupPeriod gas) div Hour;
                 startup0 = Uint64 validatorStartup_bn;
                 startup = (if startup0 < MinStartupGasPower gas
                            then MinStartupGasPower gas else startup0)
             in Inr (perHour, maxGasPower, startup))"

text \<open>
  The first part of \<open>CalcGasPower\<close>: the gas power left before the event. Reading
  \<open>selfParent.GasPowerLeft\<close> through a nil header is a nil dereference.
\<close>

definition prevGasPowerLeft :: "Poset \<Rightarrow> EventHeaderData \<Rightarrow> u64 \<Rightarrow> error + u64" where
  "prevGasPowerLeft p e startup =
     (case SelfParent e of
        Some sp \<Rightarrow>
          (case GetEventHeader p (Epoch e) sp of
             None \<Rightarrow> Inl NilDereference
           | Some selfParent \<Rightarrow> Inr (GasPowerLeft selfParent))
      | None \<Rightarrow>
          (case LastHeaders (PrevEpoch (epochState p)) (Creator e) of
             Some prevConfirmedHeader \<Rightarrow>
               Inr (if GasPowerLeft prevConfirmedHeader < startup then startup
                    else GasPowerLeft prevConfirmedHeader)
           | None \<Rightarrow> Inr startup))"

definition CalcGasPower :: "Poset \<Rightarrow> EventHeaderData \<Rightarrow> error + u64" where
  "CalcGasPower p e =
     (case calcValidatorGasPowerPerH p (Creator e) of
        Inl err \<Rightarrow> Inl err
      | Inr (gasPowerPerH, maxGasPower, startup) \<Rightarrow>
          (case prevGasPowerLeft p e startup of
             Inl err \<Rightarrow> Inl err
           | Inr prevLeft \<Rightarrow>
               let gasPowerAllocated_bn = 1 * unat gasPowerPerH div Hour;
                   gasPower = Uint64 gasPowerAllocated_bn + prevLeft
               in Inr (if gasPower > maxGasPower then maxGasPower else gasPower)))"

text \<open>
  The regulator as the specification words it, on unbounded naturals: the gas power
  available to an event is the prior amount left plus what was allocated over the time
  \<open>dt\<close> (nanoseconds) since the parent, capped by the validator's maximum.
\<close>

definition spec_allocated :: "nat \<Rightarrow> nat \<Rightarrow> nat" where
  "spec_allocated perHour dt = perHour * dt div Hour"

definition spec_GasPowerAvailable :: "nat \<Rightarrow> nat \<Rightarrow> nat \<Rightarrow> nat \<Rightarrow> nat" where
  "spec_GasPowerAvailable priorLeft perHour dt maxv =
     min (priorLeft + spec_allocated perHour dt) maxv"

section \<open>Frame decision and epoch sealing (the engine's frame-decision source file)\<close>

text \<open>
  Modelled from the spec: \<open>dfsSubgraph\<close> (not among the sources) walks from the head
  through the ancestors that the filter accepts: the header of the event on top of the
  stack is looked up, the filter is called on it, and the parents of an accepted event are
  pushed. An event whose header the event source does not have ends the walk with an
  error value, which the function returns to its caller. The filter reads and writes
  the store and may stop the process; a walk that never ends has no result (\<open>None\<close>).
\<close>

datatype walkError = EventNotFound EventHash

partial_function (option) dfsSubgraph ::
  "(EventHash \<Rightarrow> EventHeaderData option) \<Rightarrow> (Store \<Rightarrow> EventHeaderData \<Rightarrow> error + bool \<times> Store)
     \<Rightarrow> EventHash list \<Rightarrow> Store \<Rightarrow> (error + walkError option \<times> Store) option" where
  "dfsSubgraph get accept stack st =
     (case stack of
        [] \<Rightarrow> Some (Inr (None, st))
      | walk # rest \<Rightarrow>
          (case get walk of
             None \<Rightarrow> Some (Inr (Some (EventNotFound walk), st))
           | Some header \<Rightarrow>
               (case accept st header of
                  Inl err \<Rightarrow> Some (Inl err)
                | Inr (accepted, st') \<Rightarrow>
                    if accepted then dfsSubgraph get accept (Parents header @ rest) st'
                    else dfsSubgraph get accept rest st')))"

text \<open>
  The filter closure of \<open>confirmBlockEvents\<close>: an event that already has a confirmed-on
  frame is skipped; any other event is stamped with the decided frame, and then the
  \<open>Log.Crit\<close> call of the unfinished sanity check stops the process, so that the
  \<open>return true\<close> after it is never reached.
\<close>

definition confirmFilter :: "u32 \<Rightarrow> Store \<Rightarrow> EventHeaderData \<Rightarrow> error + bool \<times> Store" where
  "confirmFilter frame st header =
     (let decidedFrame = GetEventConfirmedOn st (Hash header) in
      if decidedFrame \<noteq> 0 then Inr (False, st)
      else
        let st' = SetEventConfirmedOn st (Hash header) frame
        in Inl (Crit ''confirmBlockEvents NOT_IMPLEMENTED yet''))"

text \<open>
  \<open>confirmBlockEvents\<close>: \<open>lastHeaders\<close> and \<open>blockEvents\<close> are created empty and
  returned as they are; nothing is appended to them.
\<close>

definition confirmBlockEvents ::
  "Poset \<Rightarrow> u32 \<Rightarrow> EventHash \<Rightarrow> (error + EventHeaderData list \<times> headersByCreator \<times> Poset) option" where
  "confirmBlockEvents p frame atropos =
     (let lastHeaders = (Map.empty :: headersByCreator);
          blockEvents = ([] :: EventHeaderData list)
      in case dfsSubgraph (GetEventHeader p (EpochN (epochState p))) (confirmFilter frame)
                [atropos] (store p) of
           None \<Rightarrow> None
         | Some (Inl err) \<Rightarrow> Some (Inl err)
         | Some (Inr (Some err, st)) \<Rightarrow> Some (Inl (Crit ''Poset: Failed to walk subgraph''))
         | Some (Inr (None, st)) \<Rightarrow> Some (Inr (blockEvents, lastHeaders, p\<lparr>store := st\<rparr>)))"

text \<open>
  \<open>onFrameDecided\<close> yields the last headers, the block handed to \<open>applyBlock\<close> (none
  when the callback is nil) and the new engine state.
\<close>

definition onFrameDecided ::
  "PosetDeps \<Rightarrow> Poset \<Rightarrow> u32 \<Rightarrow> EventHash
     \<Rightarrow> (error + headersByCreator \<times> Block option \<times> Poset) option" where
  "onFrameDecided D p frame atropos =
     (let p1 = p\<lparr>election := Reset (election p) (Validators (epochState p)) (frame + 1),
                 LastDecidedFrame := frame\<rparr>
      in case confirmBlockEvents p1 frame atropos of
           None \<Rightarrow> None
         | Some (Inl err) \<Rightarrow> Some (Inl err)
         | Some (Inr (blockEvents, lastHeaders, p2)) \<Rightarrow>
             if length blockEvents = 0
             then Some (Inl (Crit ''Frame is decided with no events. It isn't possible.''))
             else
               let (ordered, lastConsensusTime) = fareOrdering D p2 frame atropos blockEvents;
                   p3 = p2\<lparr>checkpoint := (checkpoint p2)\<lparr>LastBlockN := LastBlockN (checkpoint p2) + 1\<rparr>\<rparr>;
                   (emitted, p4) =
                     (case applyBlock p3 of
                        None \<Rightarrow> (None, p3)
                      | Some apply \<Rightarrow>
                          let block = NewBlock (LastBlockN (checkpoint p3)) lastConsensusTime ordered
                                        (LastAtropos (checkpoint p3));
                              (stateHash, nextValidators) =
                                apply block (StateHash (checkpoint p3)) (NextValidators (checkpoint p3))
                          in (Some block,
                              p3\<lparr>checkpoint := (checkpoint p3)\<lparr>StateHash := stateHash,
                                                                NextValidators := nextValidators\<rparr>\<rparr>));
                   p5 = p4\<lparr>checkpoint := (checkpoint p4)\<lparr>LastAtropos := atropos\<rparr>\<rparr>;
                   p6 = p5\<lparr>checkpoint := (checkpoint p5)\<lparr>NextValidators := Top D (NextValidators (checkpoint p5))\<rparr>\<rparr>
               in Some (Inr (lastHeaders, emitted, saveCheckpoint p6)))"

definition isEpochSealed :: "Poset \<Rightarrow> bool" where
  "isEpochSealed p = (LastDecidedFrame p \<ge> EpochLen (dag p))"

definition onNewEpoch :: "PosetDeps \<Rightarrow> Poset \<Rightarrow> EventHash \<Rightarrow> headersByCreator \<Rightarrow> Poset" where
  "onNewEpoch D p atropos lastHeaders =
     (let p1 = p\<lparr>epochState := (epochState p)\<lparr>PrevEpoch := (PrevEpoch (epochState p))
                   \<lparr>Time := frameConsensusTime D p (LastDecidedFrame p)\<rparr>\<rparr>\<rparr>;
          p2 = p1\<lparr>epochState := (epochState p1)\<lparr>PrevEpoch := (PrevEpoch (epochState p1))
                   \<lparr>Epoch_g := EpochN (epochState p1)\<rparr>\<rparr>\<rparr>;
          p3 = p2\<lparr>epochState := (epochState p2)\<lparr>PrevEpoch := (PrevEpoch (epochState p2))
                   \<lparr>LastAtropos_g := atropos\<rparr>\<rparr>\<rparr>;
          p4 = p3\<lparr>epochState := (epochState p3)\<lparr>PrevEpoch := (PrevEpoch (epochState p3))
                   \<lparr>StateHash_g := StateHash (checkpoint p3)\<rparr>\<rparr>\<rparr>;
          p5 = p4\<lparr>epochState := (epochState p4)\<lparr>PrevEpoch := (PrevEpoch (epochState p4))
                   \<lparr>LastHeaders := lastHeaders\<rparr>\<rparr>\<rparr>;
          p6 = setEpochValidators p5 (Top D (NextValidators (checkpoint p5)))
                 (EpochN (epochState p5) + 1);
          p7 = p6\<lparr>checkpoint := (checkpoint p6)\<lparr>NextValidators := Copy (Validators (epochState p6))\<rparr>\<rparr>;
          p8 = p7\<lparr>LastDecidedFrame := 0\<rparr>;
          p9 = p8\<lparr>store := SetEpoch (store p8) (epochState p8)\<rparr>;
          p10 = saveCheckpoint p9;
          p11 = p10\<lparr>store := RecreateEpochDb (store p10) (EpochN (epochState p10))\<rparr>;
          p12 = p11\<lparr>vecClock := VecClock_Reset (Validators (epochState p11))
                                   (VectorIndex (epochTable (store p11)))\<rparr>
      in p12\<lparr>election := Reset (election p12) (Validators (epochState p12)) firstFrame\<rparr>)"

definition tryToSealEpoch ::
  "PosetDeps \<Rightarrow> Poset \<Rightarrow> EventHash \<Rightarrow> headersByCreator \<Rightarrow> bool \<times> Poset" where
  "tryToSealEpoch D p atropos lastHeaders =
     (if \<not> isEpochSealed p then (False, p)
      else (True, onNewEpoch D p atropos lastHeaders))"

section \<open>Gossip service callbacks (gossip/consensus\_callbacks.go)\<close>

text \<open>An event is its header data and its transactions (their hashes).\<close>

record Event = EventHeaderData +
  Transactions :: "nat list"

text \<open>
  Modelled from the spec: the event store of the gossip service
  (\<open>gossip/store*.go\<close> is not among the sources), a key-value store with sub-tables:
  the events by hash, the last event of each validator and the heads of each epoch, and
  the epoch-scoped stores that exist. A read of an absent key yields nil, not an error.
\<close>

record GossipStore =
  tableEvents :: "EventHash \<rightharpoonup> Event"
  tableLastEvents :: "(u32 \<times> Address) \<rightharpoonup> EventHash"
  tableHeads :: "(u32 \<times> EventHash) set"
  epochStores :: "u32 set"

text \<open>
  Modelled from the spec: the operations of the event store. \<open>HasEvent\<close> and
  \<open>GetEvent\<close> read the record of an event by its hash, \<open>SetEvent\<close> writes it and
  \<open>DeleteEvent\<close> deletes it; \<open>SetLastEvent\<close> records the last event of a validator
  in an epoch; \<open>DelHead\<close> and \<open>AddHead\<close> maintain the events without descendants;
  \<open>delEpochStore\<close> and \<open>getEpochStore\<close> drop and open the store of an epoch.
\<close>

definition HasEvent :: "GossipStore \<Rightarrow> EventHash \<Rightarrow> bool" where
  "HasEvent st h = (tableEvents st h \<noteq> None)"

definition GetEvent :: "GossipStore \<Rightarrow> EventHash \<Rightarrow> Event option" where
  "GetEvent st h = tableEvents st h"

definition SetEvent :: "GossipStore \<Rightarrow> Event \<Rightarrow> GossipStore" where
  "SetEvent st e = st\<lparr>tableEvents := (tableEvents st)(Hash e \<mapsto> e)\<rparr>"

definition DeleteEvent :: "GossipStore \<Rightarrow> u32 \<Rightarrow> EventHash \<Rightarrow> GossipStore" where
  "DeleteEvent st epoch h = st\<lparr>tableEvents := (tableEvents st)(h := None)\<rparr>"

definition SetLastEvent :: "GossipStore \<Rightarrow> u32 \<Rightarrow> Address \<Rightarrow> EventHash \<Rightarrow> GossipStore" where
  "SetLastEvent st epoch from h = st\<lparr>tableLastEvents := (tableLastEvents st)((epoch, from) \<mapsto> h)\<rparr>"

definition DelHead :: "u32 \<Rightarrow> EventHash \<Rightarrow> GossipStore \<Rightarrow> GossipStore" where
  "DelHead epoch h st = st\<lparr>tableHeads := tableHeads st - {(epoch, h)}\<rparr>"

definition AddHead :: "GossipStore \<Rightarrow> u32 \<Rightarrow> EventHash \<Rightarrow> GossipStore" where
  "AddHead st epoch h = st\<lparr>tableHeads := insert (epoch, h) (tableHeads st)\<rparr>"

definition delEpochStore :: "GossipStore \<Rightarrow> u32 \<Rightarrow> GossipStore" where
  "delEpochStore st epoch = st\<lparr>epochStores := epochStores st - {epoch}\<rparr>"

definition getEpochStore :: "GossipStore \<Rightarrow> u32 \<Rightarrow> GossipStore" where
  "getEpochStore st epoch = st\<lparr>epochStores := insert epoch (epochStores st)\<rparr>"

text \<open>
  The calls that \<open>processEvent\<close> makes to the collaborators outside the store and the
  engine (transaction tracking, packs, emitter, check readers, feeds), recorded in order.
\<close>

datatype Call =
    CollectNotConfirmedTxs "nat list"
  | PacksOnNewEvent EventHash u32
  | EmitterOnNewEvent EventHash
  | StoreCheckReaders u32
  | PacksOnNewEpoch u32 u32
  | OccurredTxsClear
  | FeedNewEpoch u32

record Service =
  gstore :: GossipStore
  BlockGasHardLimit :: u64
  calls :: "Call list"

text \<open>
  The \<open>Consensus\<close> interface, over the state \<open>'eng\<close> of the engine behind it:
  \<open>ProcessEvent\<close> yields an error or nil and the engine's new state, \<open>GetEpoch\<close> reads
  the current epoch.
\<close>

record 'eng Consensus =
  ProcessEvent :: "'eng \<Rightarrow> Event \<Rightarrow> error option \<times> 'eng"
  GetEpoch :: "'eng \<Rightarrow> u32"

text \<open>
  \<open>processEvent\<close>. The engine may be nil. \<open>Commit\<close> of the store (not among the
  sources) is a parameter: it yields an error or nil and the store after the commit.
\<close>

definition processEvent ::
  "(GossipStore \<Rightarrow> EventHash \<Rightarrow> bool \<Rightarrow> error option \<times> GossipStore) \<Rightarrow> 'eng Consensus option
     \<Rightarrow> Service \<times> 'eng \<Rightarrow> Event \<Rightarrow> error option \<times> Service \<times> 'eng" where
  "processEvent Commit realEngine se e =
     (let s = fst se; eng = snd se in
      if HasEvent (gstore s) (Hash e) then (Some ErrAlreadyConnectedEvent, s, eng)
      else
        let oldEpoch = Epoch e;
            s1 = s\<lparr>gstore := SetEvent (gstore s) e\<rparr>;
            (err, eng1) = (case realEngine of
                             None \<Rightarrow> (None, eng)
                           | Some engine \<Rightarrow> ProcessEvent engine eng e)
        in case err of
             Some er \<Rightarrow> (Some er, s1\<lparr>gstore := DeleteEvent (gstore s1) (Epoch e) (Hash e)\<rparr>, eng1)
           | None \<Rightarrow>
               let s2 = s1\<lparr>calls := calls s1 @ [CollectNotConfirmedTxs (Transactions e)]\<rparr>;
                   s3 = s2\<lparr>gstore := SetLastEvent (gstore s2) (Epoch e) (Creator e) (Hash e)\<rparr>;
                   s4 = s3\<lparr>gstore := fold (DelHead (Epoch e)) (Parents e) (gstore s3)\<rparr>;
                   s5 = s4\<lparr>gstore := AddHead (gstore s4) (Epoch e) (Hash e)\<rparr>;
                   s6 = s5\<lparr>calls := calls s5 @ [PacksOnNewEvent (Hash e) (Epoch e),
                                                  EmitterOnNewEvent (Hash e)]\<rparr>;
                   newEpoch = (case realEngine of
                                 None \<Rightarrow> oldEpoch
                               | Some engine \<Rightarrow> GetEpoch engine eng1);
                   s7 = (if newEpoch \<noteq> oldEpoch
                         then
                           let t1 = s6\<lparr>calls := calls s6 @ [StoreCheckReaders newEpoch,
                                                           PacksOnNewEpoch oldEpoch newEpoch]\<rparr>;
                               t2 = t1\<lparr>gstore := delEpochStore (gstore t1) oldEpoch\<rparr>;
                               t3 = t2\<lparr>gstore := getEpochStore (gstore t2) newEpoch\<rparr>
                           in t3\<lparr>calls := calls t3 @ [OccurredTxsClear, FeedNewEpoch newEpoch]\<rparr>
                         else s6);
                   immediately = (newEpoch \<noteq> oldEpoch);
                   (cerr, st') = Commit (gstore s7) (Hash e) immediately
               in (cerr, s7\<lparr>gstore := st'\<rparr>, eng1))"

text \<open>
  The loop of \<open>spillBlockEvents\<close>, from index \<open>i\<close> downwards: the event is fetched and
  written to \<open>fullEvents[i]\<close>, its gas power is added to the 64-bit sum, and when the sum
  exceeds the limit both lists are cut to \<open>[i+1:]\<close>.
\<close>

fun spillLoop ::
  "GossipStore \<Rightarrow> u64 \<Rightarrow> EventHash list \<Rightarrow> Event option list \<Rightarrow> u64 \<Rightarrow> nat
     \<Rightarrow> error + EventHash list \<times> Event option list" where
  "spillLoop st limit events fullEvents gasPowerUsedSum i =
     (case GetEvent st (events ! i) of
        None \<Rightarrow> Inl (Crit ''Event not found'')
      | Some e \<Rightarrow>
          let fullEvents' = fullEvents[i := Some e];
              gasPowerUsedSum' = gasPowerUsedSum + GasPowerUsed e
          in if gasPowerUsedSum' > limit
             then Inr (drop (i + 1) events, drop (i + 1) fullEvents')
             else (case i of
                     0 \<Rightarrow> Inr (events, fullEvents')
                   | Suc j \<Rightarrow> spillLoop st limit events fullEvents' gasPowerUsedSum' j))"

definition spillBlockEvents :: "Service \<Rightarrow> Block \<Rightarrow> error + Block \<times> Event option list" where
  "spillBlockEvents s block =
     (let fullEvents = replicate (length (Events block)) None in
      if length (Events block) = 0 then Inr (block, fullEvents)
      else
        case spillLoop (gstore s) (BlockGasHardLimit s) (Events block) fullEvents 0
               (length (Events block) - 1) of
          Inl err \<Rightarrow> Inl err
        | Inr (events, full) \<Rightarrow> Inr (block\<lparr>Events := events\<rparr>, full))"

section \<open>Quantities of the statements\<close>

text \<open>
  The gas power per hour of a validator before it is narrowed to 64 bits: the big
  integer \<open>TotalPerH * stake / TotalStake\<close>, rounded down.
\<close>

definition gasPerH_bn :: "Poset \<Rightarrow> Address \<Rightarrow> nat" where
  "gasPerH_bn p v = unat (TotalPerH (GasPower (dag p))) * unat (Get (Validators (epochState p)) v)
       div unat (TotalStake (Validators (epochState p)))"

text \<open>
  The gas power used by the event of a given hash (zero when the store does not have
  it), and the unbounded sum of it over a list of events.
\<close>

definition gasOf :: "GossipStore \<Rightarrow> EventHash \<Rightarrow> nat" where
  "gasOf st h = (case GetEvent st h of None \<Rightarrow> 0 | Some e \<Rightarrow> unat (GasPowerUsed e))"

definition gasSum :: "GossipStore \<Rightarrow> EventHash list \<Rightarrow> nat" where
  "gasSum st hs = sum_list (map (gasOf st) hs)"

section \<open>Example states\<close>

text \<open>
  The regulator scenario of the specification: 360000 gas per hour in total, a
  validator with stake 250 of 1000, a maximum period of 10 s, a startup period of 5 s
  and a minimal startup gas power of 100. Periods are in nanoseconds.
\<close>

definition regulator_gas :: GasPowerConfig where
  "regulator_gas = \<lparr>TotalPerH = 360000, MaxGasPowerPeriod = 10000000000,
                     StartupPeriod = 5000000000, MinStartupGasPower = 100\<rparr>"

definition regulator_validators :: Validators where
  "regulator_validators = [(1, 250), (2, 750)]"

text \<open>
  A configuration whose products leave the 64-bit range: 2 ^ 63 gas per hour in
  total and a maximum period of two hours.
\<close>

definition overflow_gas :: GasPowerConfig where
  "overflow_gas = \<lparr>TotalPerH = 9223372036854775808, MaxGasPowerPeriod = 7200000000000,
                    StartupPeriod = 0, MinStartupGasPower = 0\<rparr>"

text \<open>
  An event header with the given hash, creator, parents, gas power used and left, and
  time; an engine of epoch 1 with the given validators, gas configuration, last headers
  of the previous epoch and known events, and an empty epoch database.
\<close>

definition example_event :: "EventHash \<Rightarrow> Address \<Rightarrow> EventHash list \<Rightarrow> u64 \<Rightarrow> u64 \<Rightarrow> u64 \<Rightarrow> EventHeaderData" where
  "example_event h c ps used left t =
     \<lparr>Epoch = 1, Seq = 1, Creator = c, Parents = ps, GasPowerUsed = used, GasPowerLeft = left,
      ClaimedTime = t, MedianTime = t, Hash = h\<rparr>"

definition example_poset ::
  "Validators \<Rightarrow> GasPowerConfig \<Rightarrow> headersByCreator \<Rightarrow> EventHeaderData list \<Rightarrow> Poset" where
  "example_poset vs gas lastHeaders evs =
     \<lparr>dag = \<lparr>EpochLen = 10, MaxValidatorEventsInBlock = 50, GasPower = gas\<rparr>,
      epochState = \<lparr>EpochN = 1,
                    PrevEpoch = \<lparr>Time = 0, Epoch_g = 0, LastAtropos_g = 0, StateHash_g = 0,
                                 LastHeaders = lastHeaders\<rparr>,
                    Validators = vs\<rparr>,
      checkpoint = \<lparr>LastBlockN = 0, LastAtropos = 0, StateHash = 0, NextValidators = vs\<rparr>,
      LastDecidedFrame = 0,
      store = \<lparr>epochTable = emptyEpochTable, epochDbOf = 1, tableEpoch = None,
                tableCheckpoint = None\<rparr>,
      vecClock = \<lparr>vcValidators = vs, vcIndex = Map.empty\<rparr>,
      election = \<lparr>frameToDecide = 1, members = vs, decidedRoots = Map.empty, votes = Map.empty\<rparr>,
      GetEventHeader = (\<lambda>epoch h. if epoch = 1 then map_of (map (\<lambda>e. (Hash e, e)) evs) h else None),
      applyBlock = None\<rparr>"

text \<open>
  Stand-ins for the functions that are parameters: \<open>Top\<close> keeps the validators with
  a stake, the consensus time of a frame is a fixed offset of it, and the ordering keeps
  the order of the events.
\<close>

definition example_deps :: PosetDeps where
  "example_deps = \<lparr>Top = filter (\<lambda>(a, s). s \<noteq> 0),
                    frameConsensusTime = (\<lambda>p f. 1000 + ucast f),
                    fareOrdering = (\<lambda>p f a evs. (map Hash evs, 1000 + ucast f))\<rparr>"

text \<open>
  An engine that knows event 5 and has it confirmed on frame 1 already.
\<close>

definition confirmed_poset :: Poset where
  "confirmed_poset =
     (example_poset regulator_validators regulator_gas Map.empty [example_event 5 1 [] 0 0 0])
       \<lparr>store := SetEventConfirmedOn
          (store (example_poset regulator_validators regulator_gas Map.empty [])) 5 1\<rparr>"

text \<open>
  An engine at the given last decided frame (the epoch length is 10), whose next
  validators are validator 1 without stake and validator 2 with stake 1000.
\<close>

definition sealing_poset :: "u32 \<Rightarrow> Poset" where
  "sealing_poset f =
     (example_poset regulator_validators regulator_gas Map.empty [])
       \<lparr>LastDecidedFrame := f,
        checkpoint := \<lparr>LastBlockN = 10, LastAtropos = 5, StateHash = 42,
                       NextValidators = [(1, 0), (2, 1000)]\<rparr>\<rparr>"

text \<open>
  A service whose store holds the given events, with the given block gas limit; a
  block of the given events; an engine behind the \<open>Consensus\<close> interface that
  rejects the events of creator 0; a commit that succeeds.
\<close>

definition example_full_event :: "EventHash \<Rightarrow> Address \<Rightarrow> EventHash list \<Rightarrow> u64 \<Rightarrow> Event" where
  "example_full_event h c ps used =
     \<lparr>Epoch = 1, Seq = 1, Creator = c, Parents = ps, GasPowerUsed = used, GasPowerLeft = 0,
      ClaimedTime = 0, MedianTime = 0, Hash = h, Transactions = []\<rparr>"

definition example_service :: "Event list \<Rightarrow> u64 \<Rightarrow> Service" where
  "example_service evs limit =
     \<lparr>gstore = \<lparr>tableEvents = map_of (map (\<lambda>e. (Hash e, e)) evs),
                 tableLastEvents = Map.empty, tableHeads = {}, epochStores = {1}\<rparr>,
      BlockGasHardLimit = limit, calls = []\<rparr>"

definition example_block :: "EventHash list \<Rightarrow> Block" where
  "example_block hs = \<lparr>Index = 1, BlockTime = 0, Events = hs, PrevHash = 0\<rparr>"

definition example_engine :: "nat Consensus" where
  "example_engine =
     \<lparr>ProcessEvent = (\<lambda>eng e. (if Creator e = 0 then Some (EngineError 1) else None, Suc eng)),
      GetEpoch = (\<lambda>eng. 1)\<rparr>"

definition example_commit :: "GossipStore \<Rightarrow> EventHash \<Rightarrow> bool \<Rightarrow> error option \<times> GossipStore" where
  "example_commit st h immediately = (None, st)"

text \<open>
  Three stored events that use 4 units of gas power each.
\<close>

definition spill_events :: "Event list" where
  "spill_events = [example_full_event 1 1 [] 4, example_full_event 2 2 [] 4,
                   example_full_event 3 1 [1] 4]"

section \<open>Gas-power regulator: results\<close>

lemma unat_Uint64: "unat (Uint64 n) = n mod 2 ^ 64"
  by (simp add: Uint64_def unat_of_nat)

lemma unat_max_u64: "unat (if (a::u64) < b then b else a) = max (unat a) (unat b)"
  by (auto simp: word_less_nat_alt max_def)

lemma calc_nonzero:
  assumes stake: "Get (Validators (epochState p)) v \<noteq> 0"
      and total: "TotalStake (Validators (epochState p)) \<noteq> 0"
  shows "calcValidatorGasPowerPerH p v =
           Inr (Uint64 (gasPerH_bn p v),
                Uint64 (gasPerH_bn p v * unat (MaxGasPowerPeriod (GasPower (dag p))) div Hour),
                (if Uint64 (gasPerH_bn p v * unat (StartupPeriod (GasPower (dag p))) div Hour)
                      < MinStartupGasPower (GasPower (dag p))
                 then MinStartupGasPower (GasPower (dag p))
                 else Uint64 (gasPerH_bn p v * unat (StartupPeriod (GasPower (dag p))) div Hour)))"
proof -
  from total have "unat (TotalStake (Validators (epochState p))) \<noteq> 0"
    by (simp add: unat_eq_zero)
  with stake show ?thesis
    by (simp add: calcValidatorGasPowerPerH_def Let_def gasPerH_bn_def)
qed

text \<open>
  C4, as amended. For a validator with nonzero stake, the total stake being nonzero,
  the regulator computes in unbounded precision \<open>P = TotalPerH * stake / TotalStake\<close>,
  \<open>P * MaxGasPowerPeriod / 1h\<close> and \<open>P * StartupPeriod / 1h\<close>, each rounded down, and
  returns them narrowed to 64 bits, the startup value raised to \<open>MinStartupGasPower\<close>
  after the narrowing. Whenever the three quotients are below 2 ^ 64 the results are
  the values of the claim: \<open>perHour = P\<close>, \<open>maxGasPower = perHour * MaxGasPowerPeriod / 1h\<close>
  and \<open>startup = max (perHour * StartupPeriod / 1h) MinStartupGasPower\<close>.
\<close>

theorem calcValidatorGasPowerPerH_narrowed:
  assumes stake: "Get (Validators (epochState p)) v \<noteq> 0"
      and total: "TotalStake (Validators (epochState p)) \<noteq> 0"
  shows "\<exists>perHour maxGasPower startup.
           calcValidatorGasPowerPerH p v = Inr (perHour, maxGasPower, startup) \<and>
           unat perHour = gasPerH_bn p v mod 2 ^ 64 \<and>
           unat maxGasPower =
             (gasPerH_bn p v * unat (MaxGasPowerPeriod (GasPower (dag p))) div Hour) mod 2 ^ 64 \<and>
           unat startup =
             max ((gasPerH_bn p v * unat (StartupPeriod (GasPower (dag p))) div Hour) mod 2 ^ 64)
                 (unat (MinStartupGasPower (GasPower (dag p)))) \<and>
           (gasPerH_bn p v < 2 ^ 64 \<and>
            gasPerH_bn p v * unat (MaxGasPowerPeriod (GasPower (dag p))) div Hour < 2 ^ 64 \<and>
            gasPerH_bn p v * unat (StartupPeriod (GasPower (dag p))) div Hour < 2 ^ 64 \<longrightarrow>
              unat perHour = gasPerH_bn p v \<and>
              unat maxGasPower = unat perHour * unat (MaxGasPowerPeriod (GasPower (dag p))) div Hour \<and>
              unat startup = max (unat perHour * unat (StartupPeriod (GasPower (dag p))) div Hour)
                                 (unat (MinStartupGasPower (GasPower (dag p)))))"
  unfolding calc_nonzero [OF stake total]
  by (simp add: unat_Uint64 unat_max_u64)

text \<open>
  The scenario of the specification: stake 250 of 1000 yields 90000 per hour, a
  maximum of 250 and a startup gas power of 125.
\<close>

theorem calcValidatorGasPowerPerH_narrowed_witness:
  "Get (Validators (epochState (example_poset regulator_validators regulator_gas Map.empty []))) 1 \<noteq> 0 \<and>
   TotalStake (Validators (epochState (example_poset regulator_validators regulator_gas Map.empty []))) \<noteq> 0 \<and>
   gasPerH_bn (example_poset regulator_validators regulator_gas Map.empty []) 1 = 90000 \<and>
   gasPerH_bn (example_poset regulator_validators regulator_gas Map.empty []) 1
     * unat (MaxGasPowerPeriod regulator_gas) div Hour = 250 \<and>
   gasPerH_bn (example_poset regulator_validators regulator_gas Map.empty []) 1
     * unat (StartupPeriod regulator_gas) div Hour = 125 \<and>
   calcValidatorGasPowerPerH (example_poset regulator_validators regulator_gas Map.empty []) 1
     = Inr (90000, 250, 125)"
  using calcValidatorGasPowerPerH_narrowed
          [of "example_poset regulator_validators regulator_gas Map.empty []" 1]
  by (simp add: example_poset_def regulator_validators_def regulator_gas_def Get_def
        TotalStake_def gasPerH_bn_def Hour_def calcValidatorGasPowerPerH_def Uint64_def)

text \<open>
  C4 as stated fails where a quotient leaves the 64-bit range: with 2 ^ 63 gas per
  hour for the only validator and a maximum period of two hours, \<open>perHour\<close> is 2 ^ 63
  and \<open>perHour * MaxGasPowerPeriod / 1h\<close> is 2 ^ 64, but the maximum returned is 0.
\<close>

theorem calcValidatorGasPowerPerH_max_counterexample:
  "calcValidatorGasPowerPerH (example_poset [(1, 1)] overflow_gas Map.empty []) 1
     = Inr (9223372036854775808, 0, 0) \<and>
   unat (9223372036854775808 :: u64) * unat (MaxGasPowerPeriod overflow_gas) div Hour
     \<noteq> unat (0 :: u64)"
  by (simp add: example_poset_def overflow_gas_def Get_def
        TotalStake_def Hour_def calcValidatorGasPowerPerH_def Uint64_def)

text \<open>
  C9. For an event whose creator has zero stake in the validator table,
  \<open>CalcGasPower\<close> returns 0, whatever gas power the self-parent or the last header of
  the previous epoch has left (the header of the self-parent, when the event has one,
  being known to the engine).
\<close>

theorem CalcGasPower_zero_stake:
  assumes stake: "Get (Validators (epochState p)) (Creator e) = 0"
      and parent: "\<forall>sp. SelfParent e = Some sp \<longrightarrow> GetEventHeader p (Epoch e) sp \<noteq> None"
  shows "CalcGasPower p e = Inr 0"
proof -
  have c: "calcValidatorGasPowerPerH p (Creator e) = Inr (0, 0, 0)"
    using stake by (simp add: calcValidatorGasPowerPerH_def)
  have "\<exists>prevLeft. prevGasPowerLeft p e 0 = Inr prevLeft"
  proof (cases "SelfParent e")
    case None
    then show ?thesis by (simp add: prevGasPowerLeft_def split: option.split)
  next
    case (Some sp)
    with parent obtain h where "GetEventHeader p (Epoch e) sp = Some h" by auto
    with Some show ?thesis by (simp add: prevGasPowerLeft_def)
  qed
  then obtain prevLeft where l: "prevGasPowerLeft p e 0 = Inr prevLeft" ..
  have "(if prevLeft > 0 then 0 else prevLeft) = 0"
    by (simp add: word_greater_zero_iff)
  then show ?thesis
    by (simp add: CalcGasPower_def c l Uint64_def Hour_def)
qed

theorem CalcGasPower_zero_stake_witness:
  "Get (Validators (epochState (example_poset regulator_validators regulator_gas
          [3 \<mapsto> example_event 8 3 [] 0 700 0] [example_event 7 3 [] 0 500 0]))) 3 = 0 \<and>
   SelfParent (example_event 9 3 [7] 0 0 5) = Some 7 \<and>
   GetEventHeader (example_poset regulator_validators regulator_gas
          [3 \<mapsto> example_event 8 3 [] 0 700 0] [example_event 7 3 [] 0 500 0]) 1 7
     = Some (example_event 7 3 [] 0 500 0) \<and>
   CalcGasPower (example_poset regulator_validators regulator_gas
          [3 \<mapsto> example_event 8 3 [] 0 700 0] [example_event 7 3 [] 0 500 0])
        (example_event 9 3 [7] 0 0 5) = Inr 0"
  using CalcGasPower_zero_stake
          [of "example_poset regulator_validators regulator_gas
                 [3 \<mapsto> example_event 8 3 [] 0 700 0] [example_event 7 3 [] 0 500 0]"
              "example_event 9 3 [7] 0 0 5"]
  by (simp add: example_poset_def example_event_def regulator_validators_def Get_def SelfParent_def)

text \<open>
  C3 at a concrete event. The validator has stake 250 of 1000 (90000 gas per hour,
  maximum 250); the self-parent has no gas power left and the event claims a time one
  hour after it. The specification allocates 90000 for that hour, so that 250 is
  available; \<open>CalcGasPower\<close> allocates for one nanosecond whatever the times are, and
  returns 0.
\<close>

theorem CalcGasPower_ignores_elapsed_time:
  "CalcGasPower (example_poset regulator_validators regulator_gas Map.empty
                   [example_event 7 1 [] 0 0 0])
                (example_event 9 1 [7] 0 0 3600000000000) = Inr 0 \<and>
   calcValidatorGasPowerPerH (example_poset regulator_validators regulator_gas Map.empty
                   [example_event 7 1 [] 0 0 0]) 1 = Inr (90000, 250, 125) \<and>
   spec_GasPowerAvailable 0 90000
      (unat (ClaimedTime (example_event 9 1 [7] 0 0 3600000000000))
         - unat (ClaimedTime (example_event 7 1 [] 0 0 0))) 250 = 250"
  by (simp add: example_poset_def example_event_def regulator_validators_def regulator_gas_def
        Get_def TotalStake_def Hour_def calcValidatorGasPowerPerH_def Uint64_def
        CalcGasPower_def prevGasPowerLeft_def SelfParent_def
        spec_GasPowerAvailable_def spec_allocated_def)

section \<open>Frame decision and epoch sealing: results\<close>

text \<open>
  Whenever \<open>confirmBlockEvents\<close> returns, its list of block events is empty and no
  last header is recorded.
\<close>

lemma confirmBlockEvents_returns_nothing:
  assumes "confirmBlockEvents p frame atropos = Some (Inr (blockEvents, lastHeaders, p'))"
  shows "blockEvents = [] \<and> lastHeaders = Map.empty"
  using assms
  by (auto simp: confirmBlockEvents_def split: option.splits sum.splits prod.splits)

text \<open>
  C1 at a concrete state. The atropos 5 is known, has no parents and no confirmed-on
  record. The claim has \<open>confirmBlockEvents\<close> return that event as the block's only
  event; the code stamps it and stops the process in the unfinished sanity check.
\<close>

theorem confirmBlockEvents_not_implemented:
  "confirmBlockEvents (example_poset regulator_validators regulator_gas Map.empty
                         [example_event 5 1 [] 0 0 0]) 1 5
     = Some (Inl (Crit ''confirmBlockEvents NOT_IMPLEMENTED yet''))"
  by (simp add: confirmBlockEvents_def example_poset_def example_event_def dfsSubgraph.simps
        confirmFilter_def GetEventConfirmedOn_def emptyEpochTable_def)

text \<open>
  C8. When \<open>confirmBlockEvents\<close>, called in the state that \<open>onFrameDecided\<close> has
  prepared, returns no block events, \<open>onFrameDecided\<close> stops the process with the
  critical message, and so hands no block to \<open>applyBlock\<close>.
\<close>

theorem onFrameDecided_no_events:
  assumes "confirmBlockEvents
             (p\<lparr>election := Reset (election p) (Validators (epochState p)) (frame + 1),
                LastDecidedFrame := frame\<rparr>) frame atropos
           = Some (Inr ([], lastHeaders, p'))"
  shows "onFrameDecided D p frame atropos
           = Some (Inl (Crit ''Frame is decided with no events. It isn't possible.''))"
  using assms by (simp add: onFrameDecided_def)

theorem onFrameDecided_no_events_witness:
  "confirmBlockEvents
     (confirmed_poset\<lparr>election := Reset (election confirmed_poset)
                         (Validators (epochState confirmed_poset)) (2 + 1),
                      LastDecidedFrame := 2\<rparr>) 2 5
     = Some (Inr ([], Map.empty,
          confirmed_poset\<lparr>election := Reset (election confirmed_poset)
                         (Validators (epochState confirmed_poset)) (2 + 1),
                      LastDecidedFrame := 2\<rparr>)) \<and>
   onFrameDecided example_deps confirmed_poset 2 5
     = Some (Inl (Crit ''Frame is decided with no events. It isn't possible.''))"
proof -
  have c: "confirmBlockEvents
     (confirmed_poset\<lparr>election := Reset (election confirmed_poset)
                         (Validators (epochState confirmed_poset)) (2 + 1),
                      LastDecidedFrame := 2\<rparr>) 2 5
     = Some (Inr ([], Map.empty,
          confirmed_poset\<lparr>election := Reset (election confirmed_poset)
                         (Validators (epochState confirmed_poset)) (2 + 1),
                      LastDecidedFrame := 2\<rparr>))"
    by (simp add: confirmBlockEvents_def confirmed_poset_def example_poset_def
          example_event_def dfsSubgraph.simps confirmFilter_def GetEventConfirmedOn_def
          SetEventConfirmedOn_def emptyEpochTable_def)
  from c onFrameDecided_no_events [OF c, of example_deps] show ?thesis by simp
qed

text \<open>
  C2. \<open>tryToSealEpoch\<close> seals the epoch exactly when the last decided frame has
  reached the epoch length. Sealing records the previous epoch (consensus time of the
  last decided frame, epoch number, last atropos, state hash, last headers), makes
  \<open>NextValidators.Top()\<close> the validators, adds one to the epoch number, sets the last
  decided frame to 0, persists the epoch state, recreates the epoch database for the new
  epoch, and resets the vector clock and the election (to the first frame) with the new
  validators. Without sealing the state is unchanged.
\<close>

theorem tryToSealEpoch_effect:
  "fst (tryToSealEpoch D p atropos lastHeaders) = (EpochLen (dag p) \<le> LastDecidedFrame p) \<and>
   (EpochLen (dag p) \<le> LastDecidedFrame p \<longrightarrow>
      (let p' = snd (tryToSealEpoch D p atropos lastHeaders) in
         PrevEpoch (epochState p') =
           \<lparr>Time = frameConsensusTime D p (LastDecidedFrame p),
            Epoch_g = EpochN (epochState p),
            LastAtropos_g = atropos,
            StateHash_g = StateHash (checkpoint p),
            LastHeaders = lastHeaders\<rparr> \<and>
         Validators (epochState p') = Top D (NextValidators (checkpoint p)) \<and>
         EpochN (epochState p') = EpochN (epochState p) + 1 \<and>
         NextValidators (checkpoint p') = Top D (NextValidators (checkpoint p)) \<and>
         LastDecidedFrame p' = 0 \<and>
         tableEpoch (store p') = Some (epochState p') \<and>
         epochTable (store p') = emptyEpochTable \<and>
         epochDbOf (store p') = EpochN (epochState p) + 1 \<and>
         vcValidators (vecClock p') = Top D (NextValidators (checkpoint p)) \<and>
         vcIndex (vecClock p') = Map.empty \<and>
         members (election p') = Top D (NextValidators (checkpoint p)) \<and>
         frameToDecide (election p') = firstFrame \<and>
         votes (election p') = Map.empty \<and>
         decidedRoots (election p') = Map.empty)) \<and>
   (\<not> EpochLen (dag p) \<le> LastDecidedFrame p \<longrightarrow>
      snd (tryToSealEpoch D p atropos lastHeaders) = p)"
  by (simp add: tryToSealEpoch_def isEpochSealed_def onNewEpoch_def Let_def
        setEpochValidators_def saveCheckpoint_def SetEpoch_def RecreateEpochDb_def
        VecClock_Reset_def Reset_def emptyEpochTable_def Copy_def)

theorem tryToSealEpoch_effect_witness:
  "EpochLen (dag (sealing_poset 10)) \<le> LastDecidedFrame (sealing_poset 10) \<and>
   fst (tryToSealEpoch example_deps (sealing_poset 10) 5 Map.empty) \<and>
   Validators (epochState (snd (tryToSealEpoch example_deps (sealing_poset 10) 5 Map.empty)))
     = [(2, 1000)] \<and>
   EpochN (epochState (snd (tryToSealEpoch example_deps (sealing_poset 10) 5 Map.empty))) = 2 \<and>
   LastDecidedFrame (snd (tryToSealEpoch example_deps (sealing_poset 10) 5 Map.empty)) = 0 \<and>
   \<not> EpochLen (dag (sealing_poset 9)) \<le> LastDecidedFrame (sealing_poset 9) \<and>
   tryToSealEpoch example_deps (sealing_poset 9) 5 Map.empty = (False, sealing_poset 9)"
  using tryToSealEpoch_effect [of example_deps "sealing_poset 10" 5 Map.empty]
        tryToSealEpoch_effect [of example_deps "sealing_poset 9" 5 Map.empty]
  by (simp add: sealing_poset_def example_poset_def example_deps_def Let_def
        tryToSealEpoch_def isEpochSealed_def)

section \<open>Gossip service callbacks: results\<close>

text \<open>
  C6. For an event that the store already has, \<open>processEvent\<close> returns
  \<open>ErrAlreadyConnectedEvent\<close> and leaves the service, its store and the engine as they
  were.
\<close>

theorem processEvent_already_connected:
  assumes "HasEvent (gstore s) (Hash e)"
  shows "processEvent Commit realEngine (s, eng) e = (Some ErrAlreadyConnectedEvent, s, eng)"
  using assms by (simp add: processEvent_def)

theorem processEvent_already_connected_witness:
  "HasEvent (gstore (example_service [example_full_event 7 1 [] 3] 10))
            (Hash (example_full_event 7 1 [] 3)) \<and>
   processEvent example_commit (Some example_engine)
       (example_service [example_full_event 7 1 [] 3] 10, 0) (example_full_event 7 1 [] 3)
     = (Some ErrAlreadyConnectedEvent, example_service [example_full_event 7 1 [] 3] 10, 0)"
  using processEvent_already_connected
          [of "example_service [example_full_event 7 1 [] 3] 10" "example_full_event 7 1 [] 3"
              example_commit "Some example_engine" 0]
  by (simp add: example_service_def example_full_event_def HasEvent_def)

lemma SetEvent_DeleteEvent:
  assumes "\<not> HasEvent st (Hash e)"
  shows "DeleteEvent (SetEvent st e) epoch (Hash e) = st"
proof -
  from assms have "tableEvents st (Hash e) = None" by (simp add: HasEvent_def)
  then have "(tableEvents st)(Hash e := None) = tableEvents st" by (simp add: fun_upd_idem)
  then show ?thesis by (simp add: DeleteEvent_def SetEvent_def)
qed

text \<open>
  C7. When the engine's \<open>ProcessEvent\<close> returns an error for a new event,
  \<open>processEvent\<close> returns that error, and the event record written before the call is
  deleted again: the store has no record of the event and is as it was before.
\<close>

theorem processEvent_engine_error:
  assumes new: "\<not> HasEvent (gstore s) (Hash e)"
      and failed: "ProcessEvent engine eng e = (Some err, eng')"
  shows "processEvent Commit (Some engine) (s, eng) e = (Some err, s, eng') \<and>
         \<not> HasEvent (gstore (fst (snd (processEvent Commit (Some engine) (s, eng) e)))) (Hash e)"
proof -
  have "processEvent Commit (Some engine) (s, eng) e = (Some err, s, eng')"
    using new failed by (simp add: processEvent_def SetEvent_DeleteEvent)
  with new show ?thesis by simp
qed

theorem processEvent_engine_error_witness:
  "\<not> HasEvent (gstore (example_service [example_full_event 7 1 [] 3] 10))
              (Hash (example_full_event 8 0 [7] 3)) \<and>
   ProcessEvent example_engine 0 (example_full_event 8 0 [7] 3) = (Some (EngineError 1), 1) \<and>
   processEvent example_commit (Some example_engine)
       (example_service [example_full_event 7 1 [] 3] 10, 0) (example_full_event 8 0 [7] 3)
     = (Some (EngineError 1), example_service [example_full_event 7 1 [] 3] 10, 1)"
  using processEvent_engine_error
          [of "example_service [example_full_event 7 1 [] 3] 10" "example_full_event 8 0 [7] 3"
              example_engine 0 "EngineError 1" 1 example_commit]
  by (simp add: example_service_def example_full_event_def HasEvent_def example_engine_def)

subsection \<open>Spilling\<close>

declare spillLoop.simps [simp del]

lemma spillLoop_exceed:
  "GetEvent st (evs ! i) = Some e \<Longrightarrow> gsum + GasPowerUsed e > limit \<Longrightarrow>
   spillLoop st limit evs full gsum i = Inr (drop (Suc i) evs, drop (Suc i) (full[i := Some e]))"
  by (subst spillLoop.simps) simp

lemma spillLoop_zero:
  "GetEvent st (evs ! 0) = Some e \<Longrightarrow> \<not> gsum + GasPowerUsed e > limit \<Longrightarrow>
   spillLoop st limit evs full gsum 0 = Inr (evs, full[0 := Some e])"
  by (subst spillLoop.simps) simp

lemma spillLoop_rec:
  "GetEvent st (evs ! Suc j) = Some e \<Longrightarrow> \<not> gsum + GasPowerUsed e > limit \<Longrightarrow>
   spillLoop st limit evs full gsum (Suc j) =
     spillLoop st limit evs (full[Suc j := Some e]) (gsum + GasPowerUsed e) j"
  by (subst spillLoop.simps) simp

lemma gasSum_drop:
  "i < length evs \<Longrightarrow> gasSum st (drop i evs) = gasOf st (evs ! i) + gasSum st (drop (Suc i) evs)"
  by (simp add: gasSum_def flip: Cons_nth_drop_Suc)

lemma gasSum_drop_le: "gasSum st (drop i evs) \<le> gasSum st evs"
proof -
  have "gasSum st evs = gasSum st (take i evs) + gasSum st (drop i evs)"
    unfolding gasSum_def by (metis append_take_drop_id map_append sum_list.append)
  then show ?thesis by simp
qed

text \<open>
  The loop returns a suffix of the events together with the fetched events of that
  suffix; it cuts right after index \<open>i\<close> exactly when the event at \<open>i\<close> takes the sum
  over the limit.
\<close>

lemma spillLoop_suffix:
  assumes "i < length evs" and "length full = length evs"
      and "\<forall>h \<in> set evs. GetEvent st h \<noteq> None"
      and "\<forall>j. i < j \<and> j < length evs \<longrightarrow> full ! j = GetEvent st (evs ! j)"
  shows "\<exists>k. k \<le> Suc i \<and>
           spillLoop st limit evs full gsum i = Inr (drop k evs, map (GetEvent st) (drop k evs)) \<and>
           (k = Suc i \<longleftrightarrow> gsum + word_of_nat (gasOf st (evs ! i)) > limit)"
  using assms
proof (induction i arbitrary: full gsum)
  case 0
  then obtain e where e: "GetEvent st (evs ! 0) = Some e"
    by (metis nth_mem not_Some_eq)
  have g: "word_of_nat (gasOf st (evs ! 0)) = GasPowerUsed e"
    by (simp add: gasOf_def e)
  show ?case
  proof (cases "gsum + GasPowerUsed e > limit")
    case True
    have "drop (Suc 0) (full[0 := Some e]) = map (GetEvent st) (drop (Suc 0) evs)"
      using 0 by (intro nth_equalityI) auto
    with True e g show ?thesis
      by (intro exI [of _ "Suc 0"]) (simp add: spillLoop_exceed)
  next
    case False
    have "full[0 := Some e] = map (GetEvent st) evs"
      using 0 e by (intro nth_equalityI) (auto simp: nth_list_update)
    with False e g show ?thesis
      by (intro exI [of _ 0]) (simp add: spillLoop_zero)
  qed
next
  case (Suc j)
  then obtain e where e: "GetEvent st (evs ! Suc j) = Some e"
    by (metis nth_mem not_Some_eq)
  have g: "word_of_nat (gasOf st (evs ! Suc j)) = GasPowerUsed e"
    by (simp add: gasOf_def e)
  show ?case
  proof (cases "gsum + GasPowerUsed e > limit")
    case True
    have "drop (Suc (Suc j)) (full[Suc j := Some e]) = map (GetEvent st) (drop (Suc (Suc j)) evs)"
      using Suc.prems by (intro nth_equalityI) auto
    with True e g show ?thesis
      by (intro exI [of _ "Suc (Suc j)"]) (simp add: spillLoop_exceed)
  next
    case False
    have a: "j < length evs" using Suc.prems by simp
    have b: "length (full[Suc j := Some e]) = length evs" using Suc.prems by simp
    have c: "\<forall>j'. j < j' \<and> j' < length evs \<longrightarrow>
               (full[Suc j := Some e]) ! j' = GetEvent st (evs ! j')"
      using Suc.prems e by (auto simp: nth_list_update)
    from Suc.IH [OF a b Suc.prems(3) c, of "gsum + GasPowerUsed e"]
    obtain k where k: "k \<le> Suc j"
      "spillLoop st limit evs (full[Suc j := Some e]) (gsum + GasPowerUsed e) j
         = Inr (drop k evs, map (GetEvent st) (drop k evs))"
      by blast
    with False e g show ?thesis
      by (intro exI [of _ k]) (simp add: spillLoop_rec)
  qed
qed

lemma unat_gsum_step:
  assumes "unat gsum = gasSum st (drop (Suc i) evs)" and "gasSum st evs < 2 ^ 64"
      and "i < length evs" and "GetEvent st (evs ! i) = Some e"
  shows "unat (gsum + GasPowerUsed e) = gasSum st (drop i evs)"
proof -
  have d: "gasSum st (drop i evs) = unat (GasPowerUsed e) + unat gsum"
    using assms by (simp add: gasSum_drop gasOf_def)
  have "gasSum st (drop i evs) < 2 ^ 64"
    using gasSum_drop_le [of st i evs] assms(2) by simp
  with d have "unat gsum + unat (GasPowerUsed e) < 2 ^ LENGTH(64)" by simp
  then have "unat (gsum + GasPowerUsed e) = unat gsum + unat (GasPowerUsed e)"
    by (rule unat_add_lem [THEN iffD1])
  with d show ?thesis by simp
qed

text \<open>
  As long as the sum of the whole list stays within 64 bits, the suffix that the loop
  returns fits the limit and the next longer suffix does not.
\<close>

lemma spillLoop_fits:
  assumes "i < length evs"
      and "\<forall>h \<in> set evs. GetEvent st h \<noteq> None"
      and "unat gsum = gasSum st (drop (Suc i) evs)"
      and "gasSum st evs < 2 ^ 64"
      and "gasSum st (drop (Suc i) evs) \<le> unat limit"
  shows "\<exists>k full'. k \<le> Suc i \<and>
           spillLoop st limit evs full gsum i = Inr (drop k evs, full') \<and>
           gasSum st (drop k evs) \<le> unat limit \<and>
           (0 < k \<longrightarrow> unat limit < gasSum st (drop (k - 1) evs))"
  using assms
proof (induction i arbitrary: full gsum)
  case 0
  then obtain e where e: "GetEvent st (evs ! 0) = Some e"
    by (metis nth_mem not_Some_eq)
  have u: "unat (gsum + GasPowerUsed e) = gasSum st (drop 0 evs)"
    using unat_gsum_step [OF "0.prems"(3) "0.prems"(4) "0.prems"(1) e] .
  show ?case
  proof (cases "gsum + GasPowerUsed e > limit")
    case True
    then have "unat limit < gasSum st (drop 0 evs)"
      using u by (simp add: word_less_nat_alt)
    with True e "0.prems" show ?thesis
      by (intro exI [of _ "Suc 0"]) (simp add: spillLoop_exceed)
  next
    case False
    then have "gasSum st (drop 0 evs) \<le> unat limit"
      using u by (simp add: word_less_nat_alt)
    with False e show ?thesis
      by (intro exI [of _ 0]) (simp add: spillLoop_zero)
  qed
next
  case (Suc j)
  then obtain e where e: "GetEvent st (evs ! Suc j) = Some e"
    by (metis nth_mem not_Some_eq)
  have u: "unat (gsum + GasPowerUsed e) = gasSum st (drop (Suc j) evs)"
    using unat_gsum_step [OF Suc.prems(3) Suc.prems(4) Suc.prems(1) e] .
  show ?case
  proof (cases "gsum + GasPowerUsed e > limit")
    case True
    then have "unat limit < gasSum st (drop (Suc j) evs)"
      using u by (simp add: word_less_nat_alt)
    with True e Suc.prems show ?thesis
      by (intro exI [of _ "Suc (Suc j)"]) (simp add: spillLoop_exceed)
  next
    case False
    then have le: "gasSum st (drop (Suc j) evs) \<le> unat limit"
      using u by (simp add: word_less_nat_alt)
    have a: "j < length evs" using Suc.prems by simp
    from Suc.IH [OF a Suc.prems(2) u Suc.prems(4) le, of "full[Suc j := Some e]"]
    obtain k full' where k: "k \<le> Suc j"
      "spillLoop st limit evs (full[Suc j := Some e]) (gsum + GasPowerUsed e) j
         = Inr (drop k evs, full')"
      "gasSum st (drop k evs) \<le> unat limit"
      "0 < k \<longrightarrow> unat limit < gasSum st (drop (k - 1) evs)"
      by blast
    with False e show ?thesis
      by (intro exI [of _ k] exI [of _ full']) (simp add: spillLoop_rec)
  qed
qed

lemma drop_eq_same_index:
  assumes "drop k xs = drop k' xs" and "k \<le> length xs" and "k' \<le> length xs"
  shows "k = k'"
proof -
  from assms(1) have "length (drop k xs) = length (drop k' xs)" by simp
  with assms(2,3) show ?thesis by simp
qed

text \<open>
  C5, as amended. For a block whose events are stored and whose summed gas power used
  exceeds \<open>BlockGasHardLimit\<close> (the sum being below 2 ^ 64), \<open>spillBlockEvents\<close>
  removes events from the head of the ordered list and retains the events at the tail:
  the result is the longest suffix whose summed gas power fits the limit.
\<close>

theorem spillBlockEvents_drops_head:
  assumes found: "\<forall>h \<in> set (Events block). HasEvent (gstore s) h"
      and nowrap: "gasSum (gstore s) (Events block) < 2 ^ 64"
      and exceeds: "unat (BlockGasHardLimit s) < gasSum (gstore s) (Events block)"
  shows "\<exists>k. 0 < k \<and> k \<le> length (Events block) \<and>
           spillBlockEvents s block
             = Inr (block\<lparr>Events := drop k (Events block)\<rparr>,
                    map (GetEvent (gstore s)) (drop k (Events block))) \<and>
           gasSum (gstore s) (drop k (Events block)) \<le> unat (BlockGasHardLimit s) \<and>
           unat (BlockGasHardLimit s) < gasSum (gstore s) (drop (k - 1) (Events block))"
proof -
  let ?evs = "Events block" and ?st = "gstore s" and ?lim = "BlockGasHardLimit s"
  let ?full = "replicate (length ?evs) (None :: Event option)"
  let ?n = "length ?evs - 1"
  from exceeds have ne: "?evs \<noteq> []" by (auto simp: gasSum_def)
  then have i: "?n < length ?evs" and sn: "Suc ?n = length ?evs" by simp_all
  from found have f: "\<forall>h \<in> set ?evs. GetEvent ?st h \<noteq> None"
    by (simp add: HasEvent_def GetEvent_def)
  have full: "\<forall>j. ?n < j \<and> j < length ?evs \<longrightarrow> ?full ! j = GetEvent ?st (?evs ! j)"
    by auto
  from spillLoop_suffix [OF i _ f full, of ?lim 0]
  obtain k where k: "k \<le> Suc ?n"
    "spillLoop ?st ?lim ?evs ?full 0 ?n = Inr (drop k ?evs, map (GetEvent ?st) (drop k ?evs))"
    by auto
  have z: "unat (0 :: u64) = gasSum ?st (drop (Suc ?n) ?evs)"
    using sn by (simp add: gasSum_def)
  have le: "gasSum ?st (drop (Suc ?n) ?evs) \<le> unat ?lim"
    using sn by (simp add: gasSum_def)
  from spillLoop_fits [OF i f z nowrap le, of ?full]
  obtain k' full' where k': "k' \<le> Suc ?n"
    "spillLoop ?st ?lim ?evs ?full 0 ?n = Inr (drop k' ?evs, full')"
    "gasSum ?st (drop k' ?evs) \<le> unat ?lim"
    "0 < k' \<longrightarrow> unat ?lim < gasSum ?st (drop (k' - 1) ?evs)"
    by blast
  from k(2) k'(2) have "drop k ?evs = drop k' ?evs" by simp
  then have kk: "k = k'"
    using k(1) k'(1) sn by (intro drop_eq_same_index [of k ?evs k']) simp_all
  have pos: "0 < k"
  proof (rule ccontr)
    assume "\<not> 0 < k"
    then have "k' = 0" using kk by simp
    with k'(3) exceeds show False by simp
  qed
  have "spillBlockEvents s block
          = Inr (block\<lparr>Events := drop k ?evs\<rparr>, map (GetEvent ?st) (drop k ?evs))"
    using ne k(2) by (simp add: spillBlockEvents_def)
  with pos k(1) k'(3,4) kk sn show ?thesis
    by (intro exI [of _ k]) simp
qed

theorem spillBlockEvents_drops_head_witness:
  "HasEvent (gstore (example_service spill_events 8)) 1 \<and>
   HasEvent (gstore (example_service spill_events 8)) 2 \<and>
   HasEvent (gstore (example_service spill_events 8)) 3 \<and>
   gasSum (gstore (example_service spill_events 8)) (Events (example_block [1, 2, 3])) < 2 ^ 64 \<and>
   unat (BlockGasHardLimit (example_service spill_events 8))
     < gasSum (gstore (example_service spill_events 8)) (Events (example_block [1, 2, 3])) \<and>
   spillBlockEvents (example_service spill_events 8) (example_block [1, 2, 3])
     = Inr ((example_block [1, 2, 3])\<lparr>Events := [2, 3]\<rparr>,
            [Some (example_full_event 2 2 [] 4), Some (example_full_event 3 1 [1] 4)])"
  using spillBlockEvents_drops_head [of "example_block [1, 2, 3]" "example_service spill_events 8"]
  by (simp add: spillBlockEvents_def example_service_def example_block_def spill_events_def
        example_full_event_def GetEvent_def HasEvent_def gasSum_def gasOf_def spillLoop.simps)

text \<open>
  C5 as stated fails: of three events that use 4 each, with a limit of 8, the first
  event is removed and the last two are retained; what is retained is not a prefix of the
  order.
\<close>

theorem spillBlockEvents_head_counterexample:
  "unat (BlockGasHardLimit (example_service spill_events 8))
     < gasSum (gstore (example_service spill_events 8)) (Events (example_block [1, 2, 3])) \<and>
   spillBlockEvents (example_service spill_events 8) (example_block [1, 2, 3])
     = Inr ((example_block [1, 2, 3])\<lparr>Events := [2, 3]\<rparr>,
            [Some (example_full_event 2 2 [] 4), Some (example_full_event 3 1 [1] 4)]) \<and>
   \<not> prefix [2, 3] (Events (example_block [1, 2, 3]))"
  by (simp add: spillBlockEvents_def example_service_def example_block_def spill_events_def
        example_full_event_def GetEvent_def gasSum_def gasOf_def spillLoop.simps)

text \<open>
  C10, as amended. For a block with a non-empty list of stored events,
  \<open>spillBlockEvents\<close> returns a contiguous suffix of the original order, which may be
  empty: it contains the block's final event exactly when the gas power used by that
  event alone is within \<open>BlockGasHardLimit\<close>.
\<close>

theorem spillBlockEvents_suffix:
  assumes nonempty: "Events block \<noteq> []"
      and found: "\<forall>h \<in> set (Events block). HasEvent (gstore s) h"
  shows "\<exists>k. k \<le> length (Events block) \<and>
           spillBlockEvents s block
             = Inr (block\<lparr>Events := drop k (Events block)\<rparr>,
                    map (GetEvent (gstore s)) (drop k (Events block))) \<and>
           (k < length (Events block) \<longleftrightarrow>
              gasOf (gstore s) (last (Events block)) \<le> unat (BlockGasHardLimit s)) \<and>
           (k < length (Events block) \<longrightarrow>
              last (drop k (Events block)) = last (Events block))"
proof -
  let ?evs = "Events block" and ?st = "gstore s" and ?lim = "BlockGasHardLimit s"
  let ?full = "replicate (length ?evs) (None :: Event option)"
  let ?n = "length ?evs - 1"
  from nonempty have i: "?n < length ?evs" and sn: "Suc ?n = length ?evs" by simp_all
  from found have f: "\<forall>h \<in> set ?evs. GetEvent ?st h \<noteq> None"
    by (simp add: HasEvent_def GetEvent_def)
  have full: "\<forall>j. ?n < j \<and> j < length ?evs \<longrightarrow> ?full ! j = GetEvent ?st (?evs ! j)"
    by auto
  from spillLoop_suffix [OF i _ f full, of ?lim 0]
  obtain k where k: "k \<le> Suc ?n"
    "spillLoop ?st ?lim ?evs ?full 0 ?n = Inr (drop k ?evs, map (GetEvent ?st) (drop k ?evs))"
    "k = Suc ?n \<longleftrightarrow> 0 + word_of_nat (gasOf ?st (?evs ! ?n)) > ?lim"
    by auto
  have l: "?evs ! ?n = last ?evs"
    using nonempty by (simp add: last_conv_nth)
  obtain e where e: "GetEvent ?st (last ?evs) = Some e"
    using f nonempty by (metis last_in_set not_Some_eq)
  have g: "gasOf ?st (last ?evs) = unat (GasPowerUsed e)"
    by (simp add: gasOf_def e)
  have "((0::u64) + word_of_nat (gasOf ?st (last ?evs)) > ?lim)
               \<longleftrightarrow> unat ?lim < gasOf ?st (last ?evs)"
    unfolding g by (simp add: word_less_nat_alt)
  with k(3) have "k = Suc ?n \<longleftrightarrow> unat ?lim < gasOf ?st (last ?evs)"
    unfolding l by simp
  with k(1) sn have iff: "k < length ?evs \<longleftrightarrow> gasOf ?st (last ?evs) \<le> unat ?lim"
    by auto
  have "spillBlockEvents s block
          = Inr (block\<lparr>Events := drop k ?evs\<rparr>, map (GetEvent ?st) (drop k ?evs))"
    using nonempty k(2) by (simp add: spillBlockEvents_def)
  with k(1) sn iff show ?thesis
    by (intro exI [of _ k]) simp
qed

theorem spillBlockEvents_suffix_witness:
  "Events (example_block [1, 2, 3]) \<noteq> [] \<and>
   HasEvent (gstore (example_service spill_events 8)) 1 \<and>
   HasEvent (gstore (example_service spill_events 8)) 2 \<and>
   HasEvent (gstore (example_service spill_events 8)) 3 \<and>
   gasOf (gstore (example_service spill_events 8)) (last (Events (example_block [1, 2, 3])))
     \<le> unat (BlockGasHardLimit (example_service spill_events 8)) \<and>
   Events (fst (projr (spillBlockEvents (example_service spill_events 8) (example_block [1, 2, 3]))))
     = [2, 3]"
  using spillBlockEvents_suffix [of "example_block [1, 2, 3]" "example_service spill_events 8"]
  by (simp add: spillBlockEvents_def example_service_def example_block_def spill_events_def
        example_full_event_def GetEvent_def HasEvent_def gasSum_def gasOf_def spillLoop.simps)

text \<open>
  C10 as stated fails: a block of one event that uses 5, with a limit of 3, is left
  with no events.
\<close>

theorem spillBlockEvents_empty_counterexample:
  "Events (example_block [1]) \<noteq> [] \<and>
   HasEvent (gstore (example_service [example_full_event 1 1 [] 5] 3)) 1 \<and>
   spillBlockEvents (example_service [example_full_event 1 1 [] 5] 3) (example_block [1])
     = Inr ((example_block [1])\<lparr>Events := []\<rparr>, [])"
  by (simp add: spillBlockEvents_def example_service_def example_block_def
        example_full_event_def GetEvent_def HasEvent_def spillLoop.simps)

end

